theory Spec2Isabelle
  imports Complex_Main "HOL-Library.Char_ord" "HOL-Library.List_Lexorder"
    "HOL-Library.Multiset"
begin

section \<open>Data model of \<^verbatim>\<open>customer_segmentation.py\<close>\<close>

text \<open>
  The frames handled by class \<^verbatim>\<open>CustomerSegmentation\<close> are lists of rows. Timestamps
  are integers counting nanoseconds (the resolution of a pandas \<^verbatim>\<open>Timestamp\<close>) and
  integer columns are \<open>int\<close>. A float column holds \<open>rat\<close>: every finite float64 is a
  rational number. What numpy and pandas compute on floats is another matter and is
  not defined in this theory (see \<open>float_ops\<close> below).
\<close>

text \<open>
  The date column of \<^verbatim>\<open>customer_data\<close> holds strings when the frame comes from
  \<^verbatim>\<open>pd.read_csv\<close> and timestamps when it comes from \<^verbatim>\<open>_generate_sample_data\<close>. In both
  cases \<open>transaction_date\<close> is the instant the cell denotes.
\<close>

datatype date_dtype = Date_strings | Date_timestamps

record transaction =
  customer_id :: int
  transaction_date :: int
  transaction_amount :: rat

text \<open>
  One row of \<^verbatim>\<open>rfm_data\<close> after the aggregation and \<^verbatim>\<open>reset_index\<close> (lines 143-151).
  Its column \<^verbatim>\<open>customer_id\<close> is the field \<open>customer\<close>: the name \<open>customer_id\<close> is the
  transaction's.
\<close>

record metrics_row =
  customer :: int
  Recency :: int
  Frequency :: int
  Monetary :: rat

text \<open>The same row once the three scores and their mean are added (lines 154-162).\<close>

record scored_row = metrics_row +
  R_Score :: int
  F_Score :: int
  M_Score :: int
  RFM_Score :: rat

text \<open>The row with its \<^verbatim>\<open>Segment\<close> column (line 189).\<close>

record segmented_row = scored_row +
  Segment :: string

text \<open>
  Exceptions are values. \<open>ValueError\<close> is what pandas and numpy raise inside the
  source's calls, \<open>TypeError\<close> what Python raises on \<^verbatim>\<open>str - Timestamp\<close>. The other
  three are the names of the specification's error taxonomy; no statement of the source
  raises them.
\<close>

datatype error =
  ValueError | TypeError | InvalidInputError | InsufficientDataError | ConfigurationError

text \<open>
  Floating point. The sum and the mean of a group, \<^verbatim>\<open>.round(2)\<close>, and the division and
  multiplication behind the percentage are computed by pandas and numpy in float64:
  each result carries a rounding error, and the order in which a sum is accumulated
  depends on the version of the library. These operations are therefore parameters of
  the model, and a theorem about the source holds for every value of them.
\<close>

record float_ops =
  fsum :: "rat list \<Rightarrow> rat"
  fmean :: "rat list \<Rightarrow> rat"
  fround2 :: "rat \<Rightarrow> rat"
  fdiv :: "rat \<Rightarrow> rat \<Rightarrow> rat"
  fmul :: "rat \<Rightarrow> rat \<Rightarrow> rat"

section \<open>Helpers standing for pandas and numpy primitives\<close>

text \<open>
  \<^verbatim>\<open>groupby(key)\<close> sorts the distinct keys; a group keeps the rows of its key in frame
  order.
\<close>

definition groupby_keys :: "('r \<Rightarrow> 'k::linorder) \<Rightarrow> 'r list \<Rightarrow> 'k list" where
  "groupby_keys key rows = sort (remdups (map key rows))"

definition get_group :: "('r \<Rightarrow> 'k) \<Rightarrow> 'r list \<Rightarrow> 'k \<Rightarrow> 'r list" where
  "get_group key rows k = filter (\<lambda>r. key r = k) rows"

text \<open>\<^verbatim>\<open>Series.max()\<close> of a datetime column: \<open>None\<close> is \<^verbatim>\<open>NaT\<close>, the maximum of no value.\<close>

fun series_max :: "int list \<Rightarrow> int option" where
  "series_max [] = None"
| "series_max (x # xs) = Some (fold max xs x)"

definition ns_per_day :: int where
  "ns_per_day = 86400000000000"

text \<open>\<^verbatim>\<open>Timedelta.days\<close>: whole days, rounded towards minus infinity.\<close>

definition days :: "int \<Rightarrow> int" where
  "days delta = delta div ns_per_day"

section \<open>Metric calculator: the first half of \<^verbatim>\<open>calculate_rfm\<close> (lines 136-151)\<close>

text \<open>
  The aggregation of one group: \<open>latest\<close> is \<^verbatim>\<open>x.max()\<close>, the count is the group's
  length, and the float sum of the amounts is rounded by the \<^verbatim>\<open>.round(2)\<close> that closes
  the \<^verbatim>\<open>agg\<close> call (the two integer columns are left as they are). A group is never
  empty; the \<open>None\<close> branch is there because \<open>series_max\<close> is total.
\<close>

definition agg_group ::
    "float_ops \<Rightarrow> int \<Rightarrow> int \<Rightarrow> transaction list \<Rightarrow> metrics_row option" where
  "agg_group ops analysis_date c g =
    (case series_max (map transaction_date g) of
       None \<Rightarrow> None
     | Some latest \<Rightarrow>
         Some \<lparr>customer = c,
               Recency = days (analysis_date - latest),
               Frequency = int (length g),
               Monetary = fround2 ops (fsum ops (map transaction_amount g))\<rparr>)"

definition aggregate :: "float_ops \<Rightarrow> int \<Rightarrow> transaction list \<Rightarrow> metrics_row list" where
  "aggregate ops analysis_date customer_data =
    List.map_filter
      (\<lambda>c. agg_group ops analysis_date c (get_group customer_id customer_data c))
      (groupby_keys customer_id customer_data)"

text \<open>
  \<open>analysis_date = None\<close> is the default argument: line 137 then takes the maximum of
  the date column, and it does so before line 140 turns the column into timestamps.
  \<^item> On an empty frame there is no group, the lambda of line 144 is never called, and
    the result is the empty frame.
  \<^item> On a column of strings the default date is a string, and the lambda of line 144
    raises \<^verbatim>\<open>TypeError\<close> on the first group, where it subtracts a timestamp from it.
  \<^item> Otherwise, and whenever the caller supplies a timestamp, the groups are
    aggregated.
\<close>

definition rfm_metrics ::
    "float_ops \<Rightarrow> date_dtype \<Rightarrow> transaction list \<Rightarrow> int option \<Rightarrow> error + metrics_row list"
  where
  "rfm_metrics ops dtype customer_data analysis_date =
    (case analysis_date of
       Some d \<Rightarrow> Inr (aggregate ops d customer_data)
     | None \<Rightarrow>
         (case series_max (map transaction_date customer_data) of
            None \<Rightarrow> Inr []
          | Some d \<Rightarrow>
              if dtype = Date_strings then Inl TypeError
              else Inr (aggregate ops d customer_data)))"

subsection \<open>Notions for stating what the metric calculator returns\<close>

text \<open>
  The analysis date in force: the argument, or by default the latest timestamp of the
  data (read on non-empty data only).
\<close>

definition reference_date :: "transaction list \<Rightarrow> int option \<Rightarrow> int" where
  "reference_date customer_data analysis_date =
    (case analysis_date of
       None \<Rightarrow> Max (transaction_date ` set customer_data)
     | Some d \<Rightarrow> d)"

text \<open>The transactions of one customer.\<close>

definition purchases :: "transaction list \<Rightarrow> int \<Rightarrow> transaction list" where
  "purchases customer_data c = get_group customer_id customer_data c"

text \<open>
  Two facts one expects of float arithmetic, stated as a property of the parameters:
  the sum of positive numbers is not negative, and rounding a number that is not
  negative gives one that is not negative.
\<close>

definition keeps_sign :: "float_ops \<Rightarrow> bool" where
  "keeps_sign ops =
    ((\<forall>xs. (\<forall>x\<in>set xs. 0 < x) \<longrightarrow> 0 \<le> fsum ops xs) \<and>
     (\<forall>x. 0 \<le> x \<longrightarrow> 0 \<le> fround2 ops x))"

section \<open>Score binner: the second half of \<^verbatim>\<open>calculate_rfm\<close> (lines 154-162)\<close>

text \<open>\<^verbatim>\<open>numpy.linspace(start, stop, num)\<close>: \<open>num\<close> points, both ends included.\<close>

definition linspace :: "rat \<Rightarrow> rat \<Rightarrow> nat \<Rightarrow> rat list" where
  "linspace start stop num =
    map (\<lambda>i. start + of_nat i * ((stop - start) / of_nat (num - 1))) [0..<num]"

text \<open>
  The edges \<^verbatim>\<open>pd.cut\<close> builds for an integer \<^verbatim>\<open>bins\<close> argument: nothing to cut raises
  \<^verbatim>\<open>ValueError\<close>; a constant column has its range widened by 0.1 percent on both
  sides; otherwise the range is divided evenly and the lowest edge is moved down by 0.1
  percent of the range, so that the minimum falls into the first interval.
\<close>

definition nbins_to_bins :: "rat list \<Rightarrow> nat \<Rightarrow> error + rat list" where
  "nbins_to_bins x nbins =
    (case x of
       [] \<Rightarrow> Inl ValueError
     | x0 # xs \<Rightarrow>
         (let mn = fold min xs x0; mx = fold max xs x0 in
          if mn = mx then
            Inr (linspace (mn - (if mn \<noteq> 0 then \<bar>mn\<bar> / 1000 else 1 / 1000))
                          (mx + (if mx \<noteq> 0 then \<bar>mx\<bar> / 1000 else 1 / 1000)) (nbins + 1))
          else
            (let bins = linspace mn mx (nbins + 1)
             in Inr (bins[0 := bins ! 0 - (mx - mn) / 1000]))))"

text \<open>\<^verbatim>\<open>bins.searchsorted(v, side='left')\<close> on increasing edges: the edges below \<open>v\<close>.\<close>

definition searchsorted_left :: "rat list \<Rightarrow> rat \<Rightarrow> nat" where
  "searchsorted_left bins v = length (filter (\<lambda>b. b < v) bins)"

text \<open>
  \<^verbatim>\<open>pd.cut(x, bins=nbins, labels=labels)\<close> with right-closed intervals. A value outside
  every interval becomes \<^verbatim>\<open>NaN\<close>, here \<open>None\<close>; a label list of the wrong length raises.
\<close>

definition cut :: "rat list \<Rightarrow> nat \<Rightarrow> int list \<Rightarrow> error + int option list" where
  "cut x nbins labels =
    (case nbins_to_bins x nbins of
       Inl e \<Rightarrow> Inl e
     | Inr bins \<Rightarrow>
         if length labels \<noteq> length bins - 1 then Inl ValueError
         else Inr (map (\<lambda>v. let ids = searchsorted_left bins v in
                             if ids = 0 \<or> ids = length bins then None
                             else Some (labels ! (ids - 1))) x))"

text \<open>\<^verbatim>\<open>.astype(int)\<close> raises on a column that holds \<^verbatim>\<open>NaN\<close>.\<close>

definition astype_int :: "int option list \<Rightarrow> error + int list" where
  "astype_int xs = (case those xs of None \<Rightarrow> Inl ValueError | Some ys \<Rightarrow> Inr ys)"

definition cut_scores :: "rat list \<Rightarrow> int list \<Rightarrow> error + int list" where
  "cut_scores x labels = (case cut x 5 labels of Inl e \<Rightarrow> Inl e | Inr c \<Rightarrow> astype_int c)"

text \<open>
  \<^verbatim>\<open>Series.rank(method='first')\<close>: the position in increasing order, from 1, equal values
  ranked in the order they appear.
\<close>

definition rank_first :: "'a::linorder list \<Rightarrow> rat list" where
  "rank_first xs =
    map (\<lambda>i. of_nat (1 + length (filter (\<lambda>y. y < xs ! i) xs)
                        + length (filter (\<lambda>y. y = xs ! i) (take i xs))))
      [0..<length xs]"

definition add_scores :: "metrics_row \<Rightarrow> int \<Rightarrow> int \<Rightarrow> int \<Rightarrow> scored_row" where
  "add_scores row r f m =
    \<lparr>customer = customer row, Recency = Recency row, Frequency = Frequency row,
     Monetary = Monetary row,
     R_Score = r, F_Score = f, M_Score = m, RFM_Score = of_int (r + f + m) / 3\<rparr>"

definition rfm_scores :: "metrics_row list \<Rightarrow> error + scored_row list" where
  "rfm_scores rfm_data =
    (case cut_scores (map (\<lambda>row. of_int (Recency row)) rfm_data) [5, 4, 3, 2, 1] of
       Inl e \<Rightarrow> Inl e
     | Inr rs \<Rightarrow>
         (case cut_scores (rank_first (map Frequency rfm_data)) [1, 2, 3, 4, 5] of
            Inl e \<Rightarrow> Inl e
          | Inr fs \<Rightarrow>
              (case cut_scores (rank_first (map Monetary rfm_data)) [1, 2, 3, 4, 5] of
                 Inl e \<Rightarrow> Inl e
               | Inr ms \<Rightarrow>
                   Inr (map (\<lambda>(row, r, f, m). add_scores row r f m)
                          (zip rfm_data (zip rs (zip fs ms)))))))"


section \<open>Rule classifier: \<^verbatim>\<open>segment_customers\<close> (lines 165-187)\<close>

definition segment_customers :: "'a scored_row_scheme \<Rightarrow> string" where
  "segment_customers row =
    (if R_Score row \<ge> 4 \<and> F_Score row \<ge> 4 \<and> M_Score row \<ge> 4 then ''Champions''
     else if F_Score row \<ge> 4 \<and> M_Score row \<ge> 4 then ''Loyal Customers''
     else if R_Score row \<ge> 4 \<and> F_Score row \<ge> 3 then ''Potential Loyalists''
     else if R_Score row \<ge> 4 \<and> F_Score row \<le> 2 then ''New Customers''
     else if R_Score row \<ge> 3 \<and> F_Score row \<ge> 2 \<and> M_Score row \<ge> 2 then ''Promising''
     else if R_Score row \<ge> 3 \<and> F_Score row \<ge> 3 then ''Need Attention''
     else if R_Score row = 2 \<and> F_Score row \<ge> 2 \<and> M_Score row \<ge> 2 then ''About to Sleep''
     else if M_Score row \<ge> 4 \<and> R_Score row \<le> 2 then ''At Risk''
     else if M_Score row \<ge> 4 \<and> R_Score row = 1 then ''Cannot Lose Them''
     else if R_Score row \<le> 2 \<and> F_Score row \<ge> 2 then ''Hibernating''
     else ''Lost'')"

text \<open>The eleven strings that occur after a \<^verbatim>\<open>return\<close> in \<^verbatim>\<open>segment_customers\<close>.\<close>

definition segment_labels :: "string list" where
  "segment_labels =
    [''Champions'', ''Loyal Customers'', ''Potential Loyalists'', ''New Customers'',
     ''Promising'', ''Need Attention'', ''About to Sleep'', ''At Risk'',
     ''Cannot Lose Them'', ''Hibernating'', ''Lost'']"

text \<open>A scored row with the given three scores; the other columns play no part in the rules.\<close>

definition scored :: "int \<Rightarrow> int \<Rightarrow> int \<Rightarrow> scored_row" where
  "scored r f m =
    \<lparr>customer = 1, Recency = 0, Frequency = 1, Monetary = 0,
     R_Score = r, F_Score = f, M_Score = m, RFM_Score = of_int (r + f + m) / 3\<rparr>"

subsection \<open>The priority table of the specification (section 4.3)\<close>

text \<open>
  This second classifier follows the specification's words, not the source: an ordered
  table of (predicate, label) pairs over the triple (r, f, m), the first matching pair
  giving the label and \<open>Lost\<close> being the fallback of rule 11.
\<close>

definition spec_rules :: "((int \<times> int \<times> int \<Rightarrow> bool) \<times> string) list" where
  "spec_rules =
    [(\<lambda>(r, f, m). r \<ge> 4 \<and> f \<ge> 4 \<and> m \<ge> 4, ''Champions''),
     (\<lambda>(r, f, m). f \<ge> 4 \<and> m \<ge> 4, ''Loyal Customers''),
     (\<lambda>(r, f, m). r \<ge> 4 \<and> f \<ge> 3, ''Potential Loyalists''),
     (\<lambda>(r, f, m). r \<ge> 4 \<and> f \<le> 2, ''New Customers''),
     (\<lambda>(r, f, m). r \<ge> 3 \<and> f \<ge> 2 \<and> m \<ge> 2, ''Promising''),
     (\<lambda>(r, f, m). r \<ge> 3 \<and> f \<ge> 3, ''Need Attention''),
     (\<lambda>(r, f, m). r = 2 \<and> f \<ge> 2 \<and> m \<ge> 2, ''About to Sleep''),
     (\<lambda>(r, f, m). m \<ge> 4 \<and> r \<le> 2, ''At Risk''),
     (\<lambda>(r, f, m). m \<ge> 4 \<and> r = 1, ''Cannot Lose Them''),
     (\<lambda>(r, f, m). r \<le> 2 \<and> f \<ge> 2, ''Hibernating'')]"

fun first_match :: "(('a \<Rightarrow> bool) \<times> string) list \<Rightarrow> 'a \<Rightarrow> string" where
  "first_match [] x = ''Lost''"
| "first_match ((p, l) # rules) x = (if p x then l else first_match rules x)"

definition spec_classifier :: "int \<Rightarrow> int \<Rightarrow> int \<Rightarrow> string" where
  "spec_classifier r f m = first_match spec_rules (r, f, m)"

section \<open>\<^verbatim>\<open>calculate_rfm\<close> as a whole (lines 131-194)\<close>

definition add_segment :: "scored_row \<Rightarrow> segmented_row" where
  "add_segment row =
    \<lparr>customer = customer row, Recency = Recency row, Frequency = Frequency row,
     Monetary = Monetary row,
     R_Score = R_Score row, F_Score = F_Score row, M_Score = M_Score row,
     RFM_Score = RFM_Score row, Segment = segment_customers row\<rparr>"

definition calculate_rfm ::
    "float_ops \<Rightarrow> date_dtype \<Rightarrow> transaction list \<Rightarrow> int option \<Rightarrow> error + segmented_row list"
  where
  "calculate_rfm ops dtype customer_data analysis_date =
    (case rfm_metrics ops dtype customer_data analysis_date of
       Inl e \<Rightarrow> Inl e
     | Inr rfm_data \<Rightarrow>
         (case rfm_scores rfm_data of
            Inl e \<Rightarrow> Inl e
          | Inr rows \<Rightarrow> Inr (map add_segment rows)))"

section \<open>Cluster selector: \<^verbatim>\<open>_find_optimal_clusters\<close> (lines 242-259)\<close>

text \<open>
  \<^verbatim>\<open>KMeans(n_clusters=k, random_state=42, n_init=10).fit_predict(data)\<close> followed by
  \<^verbatim>\<open>silhouette_score(data, cluster_labels)\<close> is scikit-learn's work on floating-point
  data. With the seed fixed it is a function of \<open>k\<close> for the given data, and it is taken
  as the parameter \<open>sil\<close>: the score for \<open>k\<close> clusters, or the exception raised on the
  way. The scores are of any linearly ordered type. The list \<^verbatim>\<open>inertias\<close> is filled by
  the loop and never read, so it is left out.
\<close>

fun silhouette_loop :: "(nat \<Rightarrow> error + 'a) \<Rightarrow> nat list \<Rightarrow> error + 'a list" where
  "silhouette_loop sil [] = Inr []"
| "silhouette_loop sil (k # ks) =
    (case sil k of
       Inl e \<Rightarrow> Inl e
     | Inr s \<Rightarrow> (case silhouette_loop sil ks of Inl e \<Rightarrow> Inl e | Inr ss \<Rightarrow> Inr (s # ss)))"

text \<open>
  \<^verbatim>\<open>numpy.argmax\<close>: the index of the first occurrence of the maximum; \<^verbatim>\<open>ValueError\<close> on
  an empty sequence. \<open>argmax_from xs i best bi\<close> scans \<open>xs\<close>, whose head has index \<open>i\<close>,
  with the best value so far and its index.
\<close>

fun argmax_from :: "'a::linorder list \<Rightarrow> nat \<Rightarrow> 'a \<Rightarrow> nat \<Rightarrow> nat" where
  "argmax_from [] i best bi = bi"
| "argmax_from (x # xs) i best bi =
    (if best < x then argmax_from xs (Suc i) x i else argmax_from xs (Suc i) best bi)"

definition argmax :: "'a::linorder list \<Rightarrow> error + nat" where
  "argmax xs = (case xs of [] \<Rightarrow> Inl ValueError | x # xs' \<Rightarrow> Inr (argmax_from xs' 1 x 0))"

text \<open>
  \<open>n\<close> is \<^verbatim>\<open>len(data)\<close>. \<^verbatim>\<open>range(2, min(max_clusters + 1, len(data)))\<close> is the list
  \<open>[2..<min (max_clusters + 1) n]\<close>, empty when the bound is 2 or less. The index
  \<^verbatim>\<open>np.argmax\<close> returns is always inside \<^verbatim>\<open>k_range\<close>; the guard makes the model say so.
\<close>

definition find_optimal_clusters :: "(nat \<Rightarrow> error + 'a::linorder) \<Rightarrow> nat \<Rightarrow> nat \<Rightarrow> error + nat" where
  "find_optimal_clusters sil n max_clusters =
    (let k_range = [2..<min (max_clusters + 1) n] in
     case silhouette_loop sil k_range of
       Inl e \<Rightarrow> Inl e
     | Inr silhouette_scores \<Rightarrow>
         (case argmax silhouette_scores of
            Inl e \<Rightarrow> Inl e
          | Inr i \<Rightarrow> if i < length k_range then Inr (k_range ! i) else Inl ValueError))"

text \<open>
  The choice of the cluster count in \<^verbatim>\<open>perform_kmeans_clustering\<close> (lines 212-213):
  the argument when one is given, the selector with its default \<^verbatim>\<open>max_clusters=10\<close>
  otherwise.
\<close>

definition choose_n_clusters :: "nat option \<Rightarrow> (nat \<Rightarrow> error + 'a::linorder) \<Rightarrow> nat \<Rightarrow> error + nat" where
  "choose_n_clusters n_clusters sil n =
    (case n_clusters of None \<Rightarrow> find_optimal_clusters sil n 10 | Some k \<Rightarrow> Inr k)"

section \<open>Segment aggregator: \<^verbatim>\<open>analyze_segments\<close> (lines 261-303)\<close>

text \<open>
  One row of \<^verbatim>\<open>rfm_segment_summary\<close>: the index \<^verbatim>\<open>Segment\<close>, the count taken on column
  \<^verbatim>\<open>customer_id\<close>, the four means and the percentage. The frame has no column for a
  sum.
\<close>

record segment_summary =
  segment :: string
  customer_count :: int
  mean_Recency :: rat
  mean_Frequency :: rat
  mean_Monetary :: rat
  mean_RFM_Score :: rat
  Percentage :: rat

text \<open>
  The means are float means, each rounded by the \<^verbatim>\<open>.round(2)\<close> after the \<^verbatim>\<open>agg\<close> call;
  the percentage is \<^verbatim>\<open>count / len(rfm_data) * 100\<close> in floats, rounded likewise.
\<close>

definition summarise :: "float_ops \<Rightarrow> segmented_row list \<Rightarrow> string \<Rightarrow> segment_summary" where
  "summarise ops rfm_data s =
    (let g = get_group Segment rfm_data s in
     \<lparr>segment = s,
      customer_count = int (length g),
      mean_Recency = fround2 ops (fmean ops (map (\<lambda>r. of_int (Recency r)) g)),
      mean_Frequency = fround2 ops (fmean ops (map (\<lambda>r. of_int (Frequency r)) g)),
      mean_Monetary = fround2 ops (fmean ops (map Monetary g)),
      mean_RFM_Score = fround2 ops (fmean ops (map RFM_Score g)),
      Percentage =
        fround2 ops
          (fmul ops (fdiv ops (of_nat (length g)) (of_nat (length rfm_data))) 100)\<rparr>)"

text \<open>
  \<^verbatim>\<open>sort_values(col, ascending=False)\<close> hands the column to numpy's default sort. The
  outcome is the rows rearranged so that the column decreases; where two rows have
  equal keys their order depends on the sort routine numpy selects for the machine. The
  sort is therefore a parameter too, bound by this contract and by nothing else.
\<close>

definition sorts_descending :: "(('r \<Rightarrow> rat) \<Rightarrow> 'r list \<Rightarrow> 'r list) \<Rightarrow> bool" where
  "sorts_descending sort_values =
    (\<forall>col rows. mset (sort_values col rows) = mset rows \<and>
                sorted (rev (map col (sort_values col rows))))"

text \<open>The value stored under \<^verbatim>\<open>'rfm_segments'\<close>.\<close>

definition rfm_segment_summary ::
    "float_ops \<Rightarrow> ((segment_summary \<Rightarrow> rat) \<Rightarrow> segment_summary list \<Rightarrow> segment_summary list)
      \<Rightarrow> segmented_row list \<Rightarrow> segment_summary list" where
  "rfm_segment_summary ops sort_values rfm_data =
    sort_values mean_Monetary
      (map (summarise ops rfm_data) (groupby_keys Segment rfm_data))"

text \<open>
  \<^verbatim>\<open>analyze_segments\<close> returns \<^verbatim>\<open>None\<close> while \<^verbatim>\<open>self.rfm_data\<close> is \<^verbatim>\<open>None\<close>. The entry
  \<^verbatim>\<open>'cluster_segments'\<close> of its result needs the cluster ids of scikit-learn and is not
  modelled.
\<close>

definition analyze_segments ::
    "float_ops \<Rightarrow> ((segment_summary \<Rightarrow> rat) \<Rightarrow> segment_summary list \<Rightarrow> segment_summary list)
      \<Rightarrow> segmented_row list option \<Rightarrow> segment_summary list option" where
  "analyze_segments ops sort_values rfm_data =
    (case rfm_data of
       None \<Rightarrow> None
     | Some rows \<Rightarrow> Some (rfm_segment_summary ops sort_values rows))"

text \<open>The quantity the specification sorts by: the sum of the members' monetary values.\<close>

definition total_monetary :: "segmented_row list \<Rightarrow> string \<Rightarrow> rat" where
  "total_monetary rfm_data s = sum_list (map Monetary (get_group Segment rfm_data s))"

section \<open>Marketing recommendations (lines 305-361)\<close>

record recommendation =
  description :: string
  strategy :: string
  actions :: "string list"

text \<open>The dictionary literal, in the order it is written.\<close>

definition recommendations :: "(string \<times> recommendation) list" where
  "recommendations =
    [(''Champions'',
       \<lparr>description = ''Best customers with high RFM scores'',
        strategy = ''VIP treatment, exclusive offers, loyalty rewards'',
        actions = [''Premium customer service'', ''Early access to new products'',
                   ''Personalized offers'', ''Loyalty program benefits'']\<rparr>),
     (''Loyal Customers'',
       \<lparr>description = ''High frequency and monetary value customers'',
        strategy = ''Upsell premium products, cross-sell, loyalty program'',
        actions = [''Product recommendations'', ''Cross-selling campaigns'',
                   ''Loyalty point bonuses'', ''Premium upgrades'']\<rparr>),
     (''Potential Loyalists'',
       \<lparr>description = ''Recent customers with good frequency'',
        strategy = ''Membership offers, engagement campaigns'',
        actions = [''Engagement sequences'', ''Product education'',
                   ''Membership invitations'', ''Social proof'']\<rparr>),
     (''New Customers'',
       \<lparr>description = ''Recent but low frequency customers'',
        strategy = ''Onboarding sequence, welcome offers'',
        actions = [''Welcome series'', ''Onboarding tutorials'',
                   ''First purchase incentives'', ''Product discovery'']\<rparr>),
     (''At Risk'',
       \<lparr>description = ''High value but declining engagement'',
        strategy = ''Win-back campaigns, special offers'',
        actions = [''Reactivation campaigns'', ''Exclusive discounts'',
                   ''Personal outreach'', ''Feedback surveys'']\<rparr>),
     (''Cannot Lose Them'',
       \<lparr>description = ''Highest value customers at risk of churning'',
        strategy = ''Immediate intervention, premium support'',
        actions = [''Personal account manager'', ''Exclusive previews'',
                   ''Special retention offers'', ''Direct communication'']\<rparr>),
     (''Hibernating'',
       \<lparr>description = ''Previously active, now dormant'',
        strategy = ''Win-back series, incentive offers'',
        actions = [''Re-engagement campaigns'', ''Comeback offers'',
                   ''Product updates'', ''Limited-time promotions'']\<rparr>),
     (''Lost'',
       \<lparr>description = ''Lowest RFM scores, likely churned'',
        strategy = ''Basic promotional offers, surveys'',
        actions = [''Exit surveys'', ''Basic promotional emails'',
                   ''Win-back attempts'', ''Competitive analysis'']\<rparr>)]"

text \<open>
  \<^verbatim>\<open>generate_marketing_recommendations\<close> returns \<^verbatim>\<open>None\<close> while \<^verbatim>\<open>self.rfm_data\<close> is
  \<^verbatim>\<open>None\<close>, and the dictionary otherwise. A lookup in the returned dictionary is
  \<open>map_of\<close> on the association list.
\<close>

definition generate_marketing_recommendations ::
    "segmented_row list option \<Rightarrow> (string \<times> recommendation) list option" where
  "generate_marketing_recommendations rfm_data =
    (case rfm_data of None \<Rightarrow> None | Some _ \<Rightarrow> Some recommendations)"

section \<open>One value of the parameters\<close>

text \<open>
  Arithmetic without rounding error, and a stable sort. They are not the arithmetic and
  the sort of numpy; they serve to evaluate the model on the examples below. The
  monetary columns of the examples hold whole numbers, halves of whole sums, and the
  rounding of 0.001 to 0.0, which float64 computes to the same values; the means the
  examples are sorted by are distinct, and then every sort that meets the contract
  gives the same order (\<open>sorts_descending_unique\<close>).
\<close>

text \<open>The nearest integer, a tie going to the even neighbour, as \<^verbatim>\<open>numpy.rint\<close> has it.\<close>

definition rint :: "rat \<Rightarrow> int" where
  "rint q =
    (let n = \<lfloor>q\<rfloor>; d = q - of_int n in
     if d < 1 / 2 then n else if 1 / 2 < d then n + 1 else if even n then n else n + 1)"

definition exact_round2 :: "rat \<Rightarrow> rat" where
  "exact_round2 q = of_int (rint (q * 100)) / 100"

definition exact_mean :: "rat list \<Rightarrow> rat" where
  "exact_mean xs = sum_list xs / of_nat (length xs)"

definition exact_ops :: float_ops where
  "exact_ops =
    \<lparr>fsum = sum_list, fmean = exact_mean, fround2 = exact_round2,
     fdiv = (\<lambda>a b. a / b), fmul = (\<lambda>a b. a * b)\<rparr>"

definition stable_sort_desc :: "('r \<Rightarrow> rat) \<Rightarrow> 'r list \<Rightarrow> 'r list" where
  "stable_sort_desc col rows = rev (sort_key col (rev rows))"

section \<open>Example inputs\<close>

text \<open>
  A population of exactly four customers with one transaction each: customers 1 and 2
  bought on day 30, customers 3 and 4 on day 0.
\<close>

definition four_customers :: "transaction list" where
  "four_customers =
    [\<lparr>customer_id = 1, transaction_date = 30 * ns_per_day, transaction_amount = 60\<rparr>,
     \<lparr>customer_id = 2, transaction_date = 30 * ns_per_day, transaction_amount = 70\<rparr>,
     \<lparr>customer_id = 3, transaction_date = 0, transaction_amount = 100\<rparr>,
     \<lparr>customer_id = 4, transaction_date = 0, transaction_amount = 10\<rparr>]"

text \<open>The table the metric calculator builds from \<open>four_customers\<close>.\<close>

definition four_metrics :: "metrics_row list" where
  "four_metrics =
    [\<lparr>customer = 1, Recency = 0, Frequency = 1, Monetary = 60\<rparr>,
     \<lparr>customer = 2, Recency = 0, Frequency = 1, Monetary = 70\<rparr>,
     \<lparr>customer = 3, Recency = 30, Frequency = 1, Monetary = 100\<rparr>,
     \<lparr>customer = 4, Recency = 30, Frequency = 1, Monetary = 10\<rparr>]"

text \<open>The same table with the scores the binner gives.\<close>

definition four_scored :: "scored_row list" where
  "four_scored =
    [\<lparr>customer = 1, Recency = 0, Frequency = 1, Monetary = 60,
      R_Score = 5, F_Score = 1, M_Score = 2, RFM_Score = 8 / 3\<rparr>,
     \<lparr>customer = 2, Recency = 0, Frequency = 1, Monetary = 70,
      R_Score = 5, F_Score = 2, M_Score = 4, RFM_Score = 11 / 3\<rparr>,
     \<lparr>customer = 3, Recency = 30, Frequency = 1, Monetary = 100,
      R_Score = 1, F_Score = 4, M_Score = 5, RFM_Score = 10 / 3\<rparr>,
     \<lparr>customer = 4, Recency = 30, Frequency = 1, Monetary = 10,
      R_Score = 1, F_Score = 5, M_Score = 1, RFM_Score = 7 / 3\<rparr>]"

text \<open>The same table with the labels of the classifier.\<close>

definition four_segmented :: "segmented_row list" where
  "four_segmented =
    [\<lparr>customer = 1, Recency = 0, Frequency = 1, Monetary = 60,
      R_Score = 5, F_Score = 1, M_Score = 2, RFM_Score = 8 / 3,
      Segment = ''New Customers''\<rparr>,
     \<lparr>customer = 2, Recency = 0, Frequency = 1, Monetary = 70,
      R_Score = 5, F_Score = 2, M_Score = 4, RFM_Score = 11 / 3,
      Segment = ''New Customers''\<rparr>,
     \<lparr>customer = 3, Recency = 30, Frequency = 1, Monetary = 100,
      R_Score = 1, F_Score = 4, M_Score = 5, RFM_Score = 10 / 3,
      Segment = ''Loyal Customers''\<rparr>,
     \<lparr>customer = 4, Recency = 30, Frequency = 1, Monetary = 10,
      R_Score = 1, F_Score = 5, M_Score = 1, RFM_Score = 7 / 3,
      Segment = ''Hibernating''\<rparr>]"

text \<open>A single purchase of a tenth of a cent.\<close>

definition tiny_purchase :: "transaction list" where
  "tiny_purchase = [\<lparr>customer_id = 1, transaction_date = 0, transaction_amount = 1 / 1000\<rparr>]"

text \<open>Silhouette scores that do not depend on the number of clusters.\<close>

definition flat_silhouette :: "nat \<Rightarrow> error + int" where
  "flat_silhouette k = Inr 0"

text \<open>Silhouette scores with their maximum at three and at four clusters.\<close>

definition peaked_silhouette :: "nat \<Rightarrow> error + int" where
  "peaked_silhouette k = Inr (if k = 3 \<or> k = 4 then 5 else 1)"

section \<open>Auxiliary facts\<close>

subsection \<open>Grouping and sorting\<close>

lemma set_groupby_keys: "set (groupby_keys key rows) = key ` set rows"
  by (simp add: groupby_keys_def)

lemma distinct_groupby_keys: "distinct (groupby_keys key rows)"
  by (simp add: groupby_keys_def)

lemma sorts_descending_stable: "sorts_descending stable_sort_desc"
  by (simp add: sorts_descending_def stable_sort_desc_def rev_map sorted_sort_key)

lemma sorts_descending_sorted:
  "sorts_descending sv \<Longrightarrow> sorted (rev (map col (sv col rows)))"
  by (simp add: sorts_descending_def)

lemma sorts_descending_mset: "sorts_descending sv \<Longrightarrow> mset (sv col rows) = mset rows"
  by (simp add: sorts_descending_def)

lemma sorts_descending_set: "sorts_descending sv \<Longrightarrow> set (sv col rows) = set rows"
  by (metis sorts_descending_mset mset_eq_setD)

lemma sorts_descending_distinct_map:
  assumes "sorts_descending sv"
  shows "distinct (map f (sv col rows)) = distinct (map f rows)"
proof -
  have "mset (map f (sv col rows)) = mset (map f rows)"
    using sorts_descending_mset [OF assms, of col rows] by (metis mset_map)
  then show ?thesis by (rule mset_eq_imp_distinct_iff)
qed

lemma sorts_descending_unique:
  assumes "sorts_descending sv" and "sorts_descending sv'" and "distinct (map col rows)"
  shows "sv col rows = sv' col rows"
proof -
  let ?A = "sv col rows" and ?B = "sv' col rows"
  have sA: "set ?A = set rows" by (rule sorts_descending_set [OF assms(1)])
  have sB: "set ?B = set rows" by (rule sorts_descending_set [OF assms(2)])
  have dA: "distinct (map col ?A)"
    using assms(3) by (simp only: sorts_descending_distinct_map [OF assms(1)])
  have dB: "distinct (map col ?B)"
    using assms(3) by (simp only: sorts_descending_distinct_map [OF assms(2)])
  have "rev (map col ?A) = rev (map col ?B)"
  proof (rule sorted_distinct_set_unique)
    show "sorted (rev (map col ?A))" by (rule sorts_descending_sorted [OF assms(1)])
    show "distinct (rev (map col ?A))" using dA by (simp only: distinct_rev)
    show "sorted (rev (map col ?B))" by (rule sorts_descending_sorted [OF assms(2)])
    show "distinct (rev (map col ?B))" using dB by (simp only: distinct_rev)
    show "set (rev (map col ?A)) = set (rev (map col ?B))" by (simp add: sA sB)
  qed
  then have m: "map col ?A = map col ?B" by simp
  have "inj_on col (set rows)" using assms(3) by (simp add: distinct_map)
  then have "inj_on col (set ?A \<union> set ?B)" by (simp add: sA sB)
  with m show ?thesis by (rule map_inj_on)
qed

lemma segment_summarise: "segment (summarise ops rfm_data s) = s"
  by (simp add: summarise_def Let_def)

lemma mean_Monetary_summarise:
  "mean_Monetary (summarise ops rfm_data s) =
   fround2 ops (fmean ops (map Monetary (get_group Segment rfm_data s)))"
  by (simp add: summarise_def Let_def)

subsection \<open>The silhouette loop and \<open>argmax\<close>\<close>

lemma silhouette_loop_Inr:
  "silhouette_loop sil ks = Inr ss \<Longrightarrow> map sil ks = map Inr ss"
  by (induction ks arbitrary: ss) (auto split: sum.splits)

lemma silhouette_loop_total:
  "\<forall>k\<in>set ks. \<exists>s. sil k = Inr s \<Longrightarrow> \<exists>ss. silhouette_loop sil ks = Inr ss"
  by (induction ks) (auto split: sum.splits)

lemma argmax_from_max:
  "i = length pre \<Longrightarrow> bi < length pre \<Longrightarrow> pre ! bi = best \<Longrightarrow>
   \<forall>j<length pre. pre ! j \<le> best \<Longrightarrow>
   argmax_from xs i best bi < length (pre @ xs) \<and>
   (\<forall>j<length (pre @ xs). (pre @ xs) ! j \<le> (pre @ xs) ! argmax_from xs i best bi)"
proof (induction xs arbitrary: pre i best bi)
  case Nil
  then show ?case by simp
next
  case (Cons x xs)
  show ?case
  proof (cases "best < x")
    case True
    have "argmax_from xs (Suc i) x i < length ((pre @ [x]) @ xs) \<and>
      (\<forall>j<length ((pre @ [x]) @ xs).
         ((pre @ [x]) @ xs) ! j \<le> ((pre @ [x]) @ xs) ! argmax_from xs (Suc i) x i)"
    proof (rule Cons.IH)
      show "Suc i = length (pre @ [x])" using Cons.prems by simp
      show "i < length (pre @ [x])" using Cons.prems by simp
      show "(pre @ [x]) ! i = x" using Cons.prems by simp
      show "\<forall>j<length (pre @ [x]). (pre @ [x]) ! j \<le> x"
        using Cons.prems True by (auto simp: nth_append less_Suc_eq)
    qed
    with True show ?thesis by simp
  next
    case False
    have "argmax_from xs (Suc i) best bi < length ((pre @ [x]) @ xs) \<and>
      (\<forall>j<length ((pre @ [x]) @ xs).
         ((pre @ [x]) @ xs) ! j \<le> ((pre @ [x]) @ xs) ! argmax_from xs (Suc i) best bi)"
    proof (rule Cons.IH)
      show "Suc i = length (pre @ [x])" using Cons.prems by simp
      show "bi < length (pre @ [x])" using Cons.prems by simp
      show "(pre @ [x]) ! bi = best" using Cons.prems by (simp add: nth_append)
      show "\<forall>j<length (pre @ [x]). (pre @ [x]) ! j \<le> best"
        using Cons.prems False by (auto simp: nth_append less_Suc_eq)
    qed
    with False show ?thesis by simp
  qed
qed

lemma argmax_Inr:
  assumes "argmax xs = Inr i"
  shows "i < length xs \<and> (\<forall>j<length xs. xs ! j \<le> xs ! i)"
proof (cases xs)
  case Nil
  with assms show ?thesis by (simp add: argmax_def)
next
  case (Cons x xs')
  with assms have i: "i = argmax_from xs' 1 x 0" by (simp add: argmax_def)
  have "argmax_from xs' 1 x 0 < length ([x] @ xs') \<and>
     (\<forall>j<length ([x] @ xs'). ([x] @ xs') ! j \<le> ([x] @ xs') ! argmax_from xs' 1 x 0)"
    by (rule argmax_from_max) simp_all
  with i Cons show ?thesis by simp
qed

lemma argmax_nonempty: "xs \<noteq> [] \<Longrightarrow> \<exists>i. argmax xs = Inr i"
  by (cases xs) (simp_all add: argmax_def)

lemma find_optimal_clusters_Inr:
  assumes "find_optimal_clusters sil n max_clusters = Inr k"
  shows "k \<in> set [2..<min (max_clusters + 1) n] \<and>
    (\<forall>j\<in>set [2..<min (max_clusters + 1) n]. \<exists>s sk. sil j = Inr s \<and> sil k = Inr sk \<and> s \<le> sk)"
proof -
  let ?kr = "[2..<min (max_clusters + 1) n]"
  from assms obtain ss where ss: "silhouette_loop sil ?kr = Inr ss"
    by (auto simp: find_optimal_clusters_def Let_def split: sum.splits)
  with assms obtain i where i: "argmax ss = Inr i" and il: "i < length ?kr" and k: "k = ?kr ! i"
    by (auto simp: find_optimal_clusters_def Let_def split: sum.splits if_splits)
  from ss have m: "map sil ?kr = map Inr ss" by (rule silhouette_loop_Inr)
  then have len: "length ?kr = length ss" by (metis length_map)
  from m have each: "sil (?kr ! j) = Inr (ss ! j)" if "j < length ss" for j
    using that len by (metis nth_map)
  from argmax_Inr [OF i] have mx: "\<forall>j<length ss. ss ! j \<le> ss ! i" by simp
  have kin: "k \<in> set ?kr" using k il by (metis nth_mem)
  have "\<exists>s sk. sil j = Inr s \<and> sil k = Inr sk \<and> s \<le> sk" if "j \<in> set ?kr" for j
  proof -
    from that obtain a where a: "a < length ?kr" "?kr ! a = j" by (metis in_set_conv_nth)
    with len each [of a] have "sil j = Inr (ss ! a)" by simp
    moreover from il len each [of i] k have "sil k = Inr (ss ! i)" by simp
    moreover from mx a len have "ss ! a \<le> ss ! i" by simp
    ultimately show ?thesis by blast
  qed
  with kin show ?thesis by blast
qed

lemma find_optimal_clusters_total:
  assumes "3 \<le> n" and "2 \<le> max_clusters"
    and "\<forall>j\<in>set [2..<min (max_clusters + 1) n]. \<exists>s. sil j = Inr s"
  shows "\<exists>k. find_optimal_clusters sil n max_clusters = Inr k"
proof -
  let ?kr = "[2..<min (max_clusters + 1) n]"
  from assms(3) obtain ss where ss: "silhouette_loop sil ?kr = Inr ss"
    using silhouette_loop_total by blast
  then have "map sil ?kr = map Inr ss" by (rule silhouette_loop_Inr)
  then have len: "length ?kr = length ss" by (metis length_map)
  from assms(1,2) have "?kr \<noteq> []" by simp
  with len have "ss \<noteq> []" by auto
  then obtain i where i: "argmax ss = Inr i" using argmax_nonempty by blast
  from argmax_Inr [OF i] len have "i < length ?kr" by simp
  with ss i show ?thesis by (simp add: find_optimal_clusters_def Let_def)
qed

lemma find_optimal_clusters_small:
  "n < 3 \<Longrightarrow> find_optimal_clusters sil n max_clusters = Inl ValueError"
  by (simp add: find_optimal_clusters_def argmax_def)

subsection \<open>Bin edges and cuts\<close>

lemma linspace_length: "length (linspace a b num) = num"
  by (simp add: linspace_def)

lemma linspace_first: "0 < num \<Longrightarrow> linspace a b num ! 0 = a"
  by (simp add: linspace_def)

lemma linspace_last: "1 < num \<Longrightarrow> linspace a b num ! (num - 1) = b"
  by (simp add: linspace_def)

lemma fold_min_le: "v \<in> set (x0 # xs) \<Longrightarrow> fold min xs x0 \<le> (v::rat)"
  by (metis Min.set_eq_fold Min_le List.finite_set)

lemma fold_max_ge: "v \<in> set (x0 # xs) \<Longrightarrow> (v::rat) \<le> fold max xs x0"
  by (metis Max.set_eq_fold Max_ge List.finite_set)

lemma nbins_to_bins_cover:
  assumes "x \<noteq> []"
  shows "\<exists>bins. nbins_to_bins x 5 = Inr bins \<and> length bins = 6 \<and>
           (\<forall>v\<in>set x. bins ! 0 < v \<and> v \<le> bins ! 5)"
proof -
  from assms obtain x0 xs where x: "x = x0 # xs" by (cases x) auto
  define mn where "mn = fold min xs x0"
  define mx where "mx = fold max xs x0"
  have lo: "mn \<le> v" and hi: "v \<le> mx" if "v \<in> set x" for v
    using that x fold_min_le [of v x0 xs] fold_max_ge [of v x0 xs] by (simp_all add: mn_def mx_def)
  show ?thesis
  proof (cases "mn = mx")
    case True
    define a where "a = mn - (if mn \<noteq> 0 then \<bar>mn\<bar> / 1000 else 1 / 1000)"
    define b where "b = mx + (if mx \<noteq> 0 then \<bar>mx\<bar> / 1000 else 1 / 1000)"
    have ab: "a < mn" "mx < b" by (simp_all add: a_def b_def)
    have "nbins_to_bins x 5 = Inr (linspace a b 6)"
      using True by (simp add: nbins_to_bins_def x Let_def a_def b_def flip: mn_def mx_def)
    moreover have "linspace a b 6 ! 0 = a" by (simp add: linspace_first)
    moreover have "linspace a b 6 ! 5 = b" using linspace_last [of 6 a b] by simp
    ultimately have b: "nbins_to_bins x 5 = Inr (linspace a b 6)"
      "linspace a b 6 ! 0 = a" "linspace a b 6 ! 5 = b" by blast+
    have "linspace a b 6 ! 0 < v \<and> v \<le> linspace a b 6 ! 5" if "v \<in> set x" for v
      using lo [OF that] hi [OF that] ab b(2,3) by simp
    with b(1) linspace_length [of a b 6] show ?thesis by blast
  next
    case False
    have "mn \<le> mx" using lo [of x0] hi [of x0] x by simp
    with False have lt: "mn < mx" by simp
    define bins where "bins = (linspace mn mx 6)[0 := linspace mn mx 6 ! 0 - (mx - mn) / 1000]"
    have "nbins_to_bins x 5 = Inr bins"
      using False by (simp add: nbins_to_bins_def x Let_def bins_def flip: mn_def mx_def)
    moreover have "length bins = 6" by (simp add: bins_def linspace_length)
    moreover have "bins ! 0 = mn - (mx - mn) / 1000"
      by (simp add: bins_def linspace_length linspace_first)
    moreover have "bins ! 5 = mx"
      using linspace_last [of 6 mn mx] by (simp add: bins_def)
    ultimately have b: "nbins_to_bins x 5 = Inr bins" "length bins = 6"
      "bins ! 0 = mn - (mx - mn) / 1000" "bins ! 5 = mx" by blast+
    have "bins ! 0 < v \<and> v \<le> bins ! 5" if "v \<in> set x" for v
    proof -
      from lt have "0 < (mx - mn) / 1000" by simp
      with lo [OF that] hi [OF that] b(3,4) show ?thesis by linarith
    qed
    with b(1,2) show ?thesis by blast
  qed
qed

lemma searchsorted_left_inside:
  assumes "length bins = 6" and "bins ! 0 < v" and "v \<le> bins ! 5"
  shows "1 \<le> searchsorted_left bins v \<and> searchsorted_left bins v \<le> 5"
proof -
  have "bins ! 0 \<in> set bins" using assms(1) by (simp add: nth_mem)
  with assms(2) have "filter (\<lambda>b. b < v) bins \<noteq> []"
    by (auto simp: filter_empty_conv)
  then have a: "1 \<le> searchsorted_left bins v"
    by (simp add: searchsorted_left_def Suc_le_eq)
  have "bins ! 5 \<in> set bins" using assms(1) by (simp add: nth_mem)
  with assms(3) have "length (filter (\<lambda>b. b < v) bins) < length bins"
    by (intro length_filter_less [of "bins ! 5"]) auto
  with assms(1) have b: "searchsorted_left bins v \<le> 5"
    by (simp add: searchsorted_left_def)
  from a b show ?thesis ..
qed

lemma those_map_Some: "those (map (\<lambda>x. Some (g x)) xs) = Some (map g xs)"
  by (induction xs) simp_all

lemma cut_scores_total:
  assumes "x \<noteq> []" and "length labels = 5"
  shows "\<exists>ys. cut_scores x labels = Inr ys \<and> length ys = length x \<and> set ys \<subseteq> set labels"
proof -
  from nbins_to_bins_cover [OF assms(1)] obtain bins where
    bins: "nbins_to_bins x 5 = Inr bins" and len: "length bins = 6"
    and cover: "\<forall>v\<in>set x. bins ! 0 < v \<and> v \<le> bins ! 5" by blast
  let ?pick = "\<lambda>v. labels ! (searchsorted_left bins v - 1)"
  have inside: "1 \<le> searchsorted_left bins v \<and> searchsorted_left bins v \<le> 5"
    if "v \<in> set x" for v
    using that cover searchsorted_left_inside [OF len] by blast
  have "map (\<lambda>v. let ids = searchsorted_left bins v in
                 if ids = 0 \<or> ids = length bins then None
                 else Some (labels ! (ids - 1))) x = map (\<lambda>v. Some (?pick v)) x"
  proof (rule map_cong [OF refl])
    fix v assume "v \<in> set x"
    from inside [OF this] len
    show "(let ids = searchsorted_left bins v in
            if ids = 0 \<or> ids = length bins then None else Some (labels ! (ids - 1)))
          = Some (?pick v)"
      by (simp add: Let_def)
  qed
  then have "cut x 5 labels = Inr (map (\<lambda>v. Some (?pick v)) x)"
    using bins len assms(2) by (simp add: cut_def)
  then have r: "cut_scores x labels = Inr (map ?pick x)"
    by (simp add: cut_scores_def astype_int_def those_map_Some)
  have "set (map ?pick x) \<subseteq> set labels"
  proof
    fix y assume "y \<in> set (map ?pick x)"
    then obtain v where v: "v \<in> set x" and y: "y = ?pick v" by auto
    from inside [OF v] assms(2) have "searchsorted_left bins v - 1 < length labels" by linarith
    with y show "y \<in> set labels" by (simp add: nth_mem)
  qed
  with r show ?thesis by simp
qed

lemma rank_first_length: "length (rank_first xs) = length xs"
  by (simp add: rank_first_def)

subsection \<open>The aggregation per customer\<close>

lemma get_group_nonempty: "c \<in> set (groupby_keys key rows) \<Longrightarrow> get_group key rows c \<noteq> []"
  by (auto simp: groupby_keys_def get_group_def filter_empty_conv)

lemma series_max_Max: "xs \<noteq> [] \<Longrightarrow> series_max xs = Some (Max (set xs))"
  by (cases xs) (simp_all flip: Max.set_eq_fold)

lemma agg_group_nonempty:
  "g \<noteq> [] \<Longrightarrow> agg_group ops d c g =
     Some \<lparr>customer = c, Recency = days (d - Max (transaction_date ` set g)),
           Frequency = int (length g),
           Monetary = fround2 ops (fsum ops (map transaction_amount g))\<rparr>"
  by (simp add: agg_group_def series_max_Max)

lemma map_filter_all_Some:
  "(\<And>x. x \<in> set xs \<Longrightarrow> f x = Some (g x)) \<Longrightarrow> List.map_filter f xs = map g xs"
  by (induction xs) simp_all

lemma aggregate_rows:
  "aggregate ops d customer_data =
    map (\<lambda>c. \<lparr>customer = c,
               Recency = days (d - Max (transaction_date ` set (purchases customer_data c))),
               Frequency = int (length (purchases customer_data c)),
               Monetary =
                 fround2 ops (fsum ops (map transaction_amount (purchases customer_data c)))\<rparr>)
      (groupby_keys customer_id customer_data)"
  unfolding aggregate_def purchases_def
  by (rule map_filter_all_Some) (simp add: agg_group_nonempty get_group_nonempty)

lemma rfm_metrics_nonempty:
  assumes "customer_data \<noteq> []" and "dtype = Date_timestamps \<or> analysis_date \<noteq> None"
  shows "rfm_metrics ops dtype customer_data analysis_date =
    Inr (aggregate ops (reference_date customer_data analysis_date) customer_data)"
proof (cases analysis_date)
  case None
  with assms(2) have "dtype \<noteq> Date_strings" by auto
  with None assms(1) show ?thesis
    by (simp add: rfm_metrics_def reference_date_def series_max_Max)
next
  case (Some d)
  then show ?thesis by (simp add: rfm_metrics_def reference_date_def)
qed

lemma rfm_metrics_string_dates:
  "customer_data \<noteq> [] \<Longrightarrow> rfm_metrics ops Date_strings customer_data None = Inl TypeError"
  by (simp add: rfm_metrics_def series_max_Max)

lemma rint_nonneg: "0 \<le> q \<Longrightarrow> 0 \<le> rint q"
  by (auto simp: rint_def Let_def)

lemma exact_round2_nonneg: "0 \<le> q \<Longrightarrow> 0 \<le> exact_round2 q"
  by (simp add: exact_round2_def rint_nonneg)

lemma keeps_sign_exact_ops: "keeps_sign exact_ops"
proof -
  have "0 \<le> sum_list xs" if "\<forall>x\<in>set xs. 0 < x" for xs :: "rat list"
    by (rule sum_list_nonneg) (use that in force)
  then show ?thesis
    by (simp add: keeps_sign_def exact_ops_def exact_round2_nonneg)
qed

lemma days_nonneg: "0 \<le> delta \<Longrightarrow> 0 \<le> days delta"
  by (simp add: days_def ns_per_day_def pos_imp_zdiv_nonneg_iff)

lemma purchases_subset: "set (purchases customer_data c) \<subseteq> set customer_data"
  by (auto simp: purchases_def get_group_def)

lemma latest_le_max:
  assumes "purchases customer_data c \<noteq> []"
  shows "Max (transaction_date ` set (purchases customer_data c))
       \<le> Max (transaction_date ` set customer_data)"
  by (rule Max_mono) (use assms purchases_subset in auto)

subsection \<open>The example population, evaluated\<close>

lemma rfm_metrics_four_customers:
  "rfm_metrics exact_ops Date_timestamps four_customers None = Inr four_metrics"
  by code_simp

lemma rfm_scores_four_metrics: "rfm_scores four_metrics = Inr four_scored"
  by code_simp

section \<open>The rule classifier\<close>

text \<open>
  C1. The specification's scenario classifies a customer with \<open>r_score = 1\<close>,
  \<open>f_score = 1\<close>, \<open>m_score = 5\<close> as \<^verbatim>\<open>Cannot Lose Them\<close>. The source returns
  \<^verbatim>\<open>At Risk\<close> for this customer: the branch of line 180 (\<open>M_Score \<ge> 4\<close> and
  \<open>R_Score \<le> 2\<close>) stands before the branch of line 182 (\<open>M_Score \<ge> 4\<close> and
  \<open>R_Score = 1\<close>) and takes every row the later branch is written for.
\<close>

theorem segment_customers_1_1_5_at_risk:
  "segment_customers (scored 1 1 5) = ''At Risk''"
  by (simp add: segment_customers_def scored_def)

text \<open>
  C2. For every triple of scores in \<open>{1..5}\<close>, \<^verbatim>\<open>segment_customers\<close> never returns
  \<^verbatim>\<open>Cannot Lose Them\<close>.
\<close>

theorem cannot_lose_them_never_returned:
  "R_Score row \<in> {1..5} \<Longrightarrow> F_Score row \<in> {1..5} \<Longrightarrow> M_Score row \<in> {1..5} \<Longrightarrow>
   segment_customers row \<noteq> ''Cannot Lose Them''"
  by (simp add: segment_customers_def)

theorem cannot_lose_them_never_returned_witness:
  "R_Score (scored 1 3 4) \<in> {1..5} \<and> F_Score (scored 1 3 4) \<in> {1..5} \<and>
   M_Score (scored 1 3 4) \<in> {1..5} \<and>
   segment_customers (scored 1 3 4) \<noteq> ''Cannot Lose Them''"
proof -
  have r: "R_Score (scored 1 3 4) \<in> {1..5}" by (simp add: scored_def)
  have f: "F_Score (scored 1 3 4) \<in> {1..5}" by (simp add: scored_def)
  have m: "M_Score (scored 1 3 4) \<in> {1..5}" by (simp add: scored_def)
  from cannot_lose_them_never_returned [OF r f m] r f m show ?thesis by simp
qed

text \<open>
  C3. On the scores \<open>{1..5}\<close> the classifier is a total function into the eleven
  labels: the label of a row is one of the eleven distinct strings, it is the label
  of the first matching rule of the priority table of section 4.3 of the specification,
  and the row with scores (5, 5, 5) is a \<^verbatim>\<open>Champions\<close> row. Being a function of the
  three scores, the label is the same on every run.
\<close>

theorem segment_customers_total_first_match:
  "R_Score row \<in> {1..5} \<Longrightarrow> F_Score row \<in> {1..5} \<Longrightarrow> M_Score row \<in> {1..5} \<Longrightarrow>
   segment_customers row \<in> set segment_labels \<and>
   distinct segment_labels \<and> length segment_labels = 11 \<and>
   segment_customers row = spec_classifier (R_Score row) (F_Score row) (M_Score row) \<and>
   segment_customers (scored 5 5 5) = ''Champions''"
  by (simp add: segment_customers_def segment_labels_def spec_classifier_def spec_rules_def
      scored_def)

theorem segment_customers_total_first_match_witness:
  "R_Score (scored 3 2 2) \<in> {1..5} \<and> F_Score (scored 3 2 2) \<in> {1..5} \<and>
   M_Score (scored 3 2 2) \<in> {1..5} \<and>
   segment_customers (scored 3 2 2) \<in> set segment_labels \<and>
   segment_customers (scored 3 2 2) = spec_classifier 3 2 2 \<and>
   segment_customers (scored 3 2 2) = ''Promising''"
proof -
  have rs: "R_Score (scored 3 2 2) = 3" and fs: "F_Score (scored 3 2 2) = 2"
    and ms: "M_Score (scored 3 2 2) = 2"
    by (simp_all add: scored_def)
  have r: "R_Score (scored 3 2 2) \<in> {1..5}" by (simp add: rs)
  have f: "F_Score (scored 3 2 2) \<in> {1..5}" by (simp add: fs)
  have m: "M_Score (scored 3 2 2) \<in> {1..5}" by (simp add: ms)
  have p: "segment_customers (scored 3 2 2) = ''Promising''"
    by (simp add: segment_customers_def rs fs ms)
  note t = segment_customers_total_first_match [OF r f m]
  from t have a: "segment_customers (scored 3 2 2) \<in> set segment_labels" by blast
  from t have "segment_customers (scored 3 2 2) =
      spec_classifier (R_Score (scored 3 2 2)) (F_Score (scored 3 2 2)) (M_Score (scored 3 2 2))"
    by blast
  then have b: "segment_customers (scored 3 2 2) = spec_classifier 3 2 2"
    by (simp only: rs fs ms)
  from r f m a b p show ?thesis by blast
qed

section \<open>The marketing recommendations\<close>

text \<open>
  C10. The dictionary returned once \<^verbatim>\<open>rfm_data\<close> exists has eight keys, all of them
  among the eleven labels of the classifier. The labels without an entry are
  \<^verbatim>\<open>Promising\<close>, \<^verbatim>\<open>Need Attention\<close> and \<^verbatim>\<open>About to Sleep\<close>: a lookup of each finds
  nothing, and the classifier does produce each of them, for the scores (3, 2, 2),
  (3, 3, 1) and (2, 2, 2).
\<close>

theorem recommendations_miss_three_labels:
  "generate_marketing_recommendations (Some rfm_data) = Some recommendations \<and>
   length recommendations = 8 \<and> distinct (map fst recommendations) \<and>
   length segment_labels = 11 \<and>
   filter (\<lambda>l. l \<notin> set segment_labels) (map fst recommendations) = [] \<and>
   filter (\<lambda>l. map_of recommendations l = None) segment_labels =
     [''Promising'', ''Need Attention'', ''About to Sleep''] \<and>
   map_of recommendations ''Promising'' = None \<and>
   map_of recommendations ''Need Attention'' = None \<and>
   map_of recommendations ''About to Sleep'' = None \<and>
   segment_customers (scored 3 2 2) = ''Promising'' \<and>
   segment_customers (scored 3 3 1) = ''Need Attention'' \<and>
   segment_customers (scored 2 2 2) = ''About to Sleep''"
  by (simp add: generate_marketing_recommendations_def recommendations_def
      segment_labels_def segment_customers_def scored_def)

section \<open>The score binner\<close>

text \<open>
  C4. The specification lets the score binner fail with \<^verbatim>\<open>InsufficientDataError\<close> on a
  population of fewer than five rows. The source has no such guard and no such
  exception: on the four rows of \<open>four_metrics\<close> the three \<^verbatim>\<open>pd.cut\<close> calls succeed
  and give the scores of \<open>four_scored\<close>.
\<close>

theorem score_binner_four_customers_counterexample:
  "rfm_metrics exact_ops Date_timestamps four_customers None = Inr four_metrics \<and>
   length four_metrics = 4 \<and>
   rfm_scores four_metrics = Inr four_scored \<and>
   rfm_scores four_metrics \<noteq> Inl InsufficientDataError"
proof -
  have "length four_metrics = 4" by (simp add: four_metrics_def)
  with rfm_metrics_four_customers rfm_scores_four_metrics show ?thesis by simp
qed

text \<open>
  C4, as the code has it. For every table with at least one row, also one with fewer
  than five, the score binner raises nothing: it returns one scored row per customer,
  in the same order, and each of the three scores lies in \<open>{1..5}\<close>.
\<close>

theorem rfm_scores_any_population:
  assumes "rfm_data \<noteq> []"
  shows "\<exists>rows. rfm_scores rfm_data = Inr rows \<and> length rows = length rfm_data \<and>
           map customer rows = map customer rfm_data \<and>
           (\<forall>row\<in>set rows. R_Score row \<in> {1..5} \<and> F_Score row \<in> {1..5} \<and> M_Score row \<in> {1..5})"
proof -
  let ?n = "length rfm_data"
  have ne: "map (\<lambda>row. of_int (Recency row) :: rat) rfm_data \<noteq> []"
    "rank_first (map Frequency rfm_data) \<noteq> []" "rank_first (map Monetary rfm_data) \<noteq> []"
    using assms by (simp_all add: rank_first_def)
  have down: "set [5, 4, 3, 2, 1] \<subseteq> {1..5::int}" and up: "set [1, 2, 3, 4, 5] \<subseteq> {1..5::int}"
    by simp_all
  have five: "length [5, 4, 3, 2, 1 :: int] = 5" "length [1, 2, 3, 4, 5 :: int] = 5"
    by simp_all
  from cut_scores_total [OF ne(1) five(1)] obtain rs where
    rs: "cut_scores (map (\<lambda>row. of_int (Recency row)) rfm_data) [5, 4, 3, 2, 1] = Inr rs"
      "length rs = ?n" "set rs \<subseteq> {1..5}"
    using down by (metis (no_types, lifting) length_map order_trans)
  from cut_scores_total [OF ne(2) five(2)] obtain fs where
    fs: "cut_scores (rank_first (map Frequency rfm_data)) [1, 2, 3, 4, 5] = Inr fs"
      "length fs = ?n" "set fs \<subseteq> {1..5}"
    using up by (metis (no_types, lifting) length_map rank_first_length order_trans)
  from cut_scores_total [OF ne(3) five(2)] obtain ms where
    ms: "cut_scores (rank_first (map Monetary rfm_data)) [1, 2, 3, 4, 5] = Inr ms"
      "length ms = ?n" "set ms \<subseteq> {1..5}"
    using up by (metis (no_types, lifting) length_map rank_first_length order_trans)
  let ?rows = "map (\<lambda>(row, r, f, m). add_scores row r f m) (zip rfm_data (zip rs (zip fs ms)))"
  have eq: "rfm_scores rfm_data = Inr ?rows"
    by (simp add: rfm_scores_def rs(1) fs(1) ms(1))
  have len: "length ?rows = ?n" using rs(2) fs(2) ms(2) by simp
  have cust: "map customer ?rows = map customer rfm_data"
  proof -
    have "map customer ?rows = map (customer \<circ> fst) (zip rfm_data (zip rs (zip fs ms)))"
      by (simp add: add_scores_def comp_def case_prod_beta)
    also have "\<dots> = map customer (map fst (zip rfm_data (zip rs (zip fs ms))))"
      by simp
    also have "\<dots> = map customer rfm_data"
      using rs(2) fs(2) ms(2) by (simp only: map_fst_zip length_zip min.idem)
    finally show ?thesis .
  qed
  have sc: "R_Score row \<in> {1..5} \<and> F_Score row \<in> {1..5} \<and> M_Score row \<in> {1..5}"
    if "row \<in> set ?rows" for row
  proof -
    from that obtain a r f m where z: "(a, r, f, m) \<in> set (zip rfm_data (zip rs (zip fs ms)))"
      and row: "row = add_scores a r f m" by auto
    from z have z1: "(r, f, m) \<in> set (zip rs (zip fs ms))" by (rule set_zip_rightD)
    then have z2: "(f, m) \<in> set (zip fs ms)" by (rule set_zip_rightD)
    from z1 have "r \<in> set rs" by (rule set_zip_leftD)
    moreover from z2 have "f \<in> set fs" by (rule set_zip_leftD)
    moreover from z2 have "m \<in> set ms" by (rule set_zip_rightD)
    ultimately have "r \<in> set rs" "f \<in> set fs" "m \<in> set ms" by blast+
    with rs(3) fs(3) ms(3) row show ?thesis by (auto simp: add_scores_def)
  qed
  from eq len cust sc show ?thesis by blast
qed

theorem rfm_scores_any_population_witness:
  "four_metrics \<noteq> [] \<and> length four_metrics = 4 \<and>
   (\<exists>rows. rfm_scores four_metrics = Inr rows \<and> length rows = length four_metrics \<and>
      map customer rows = map customer four_metrics \<and>
      (\<forall>row\<in>set rows. R_Score row \<in> {1..5} \<and> F_Score row \<in> {1..5} \<and> M_Score row \<in> {1..5}))"
proof -
  have ne: "four_metrics \<noteq> []" and len: "length four_metrics = 4"
    by (simp_all add: four_metrics_def)
  from rfm_scores_any_population [OF ne] ne len show ?thesis by blast
qed

section \<open>The metric calculator\<close>

text \<open>
  C7. The specification gives each customer a monetary value equal to the sum of the
  amounts, and positive. The source rounds the aggregated frame to two decimals: a
  single purchase of 0.001 has a positive amount and a monetary value of 0.
\<close>

theorem metric_calculator_tiny_purchase_counterexample:
  "map transaction_amount tiny_purchase = [1 / 1000] \<and> (0::rat) < 1 / 1000 \<and>
   rfm_metrics exact_ops Date_timestamps tiny_purchase None =
     Inr [\<lparr>customer = 1, Recency = 0, Frequency = 1, Monetary = 0\<rparr>]"
  by code_simp

text \<open>
  C7, as the code has it. Take a non-empty transaction set with positive amounts whose
  date column holds timestamps, or any such set with the analysis date supplied. The
  metric calculator returns one row per distinct customer id, in increasing order of
  the ids. In each row the recency is the number of whole days from the customer's
  latest timestamp to the analysis date, the frequency is the number of the customer's
  transactions, and the monetary value is the float sum of the customer's amounts
  rounded by \<^verbatim>\<open>.round(2)\<close>, whatever the float arithmetic makes of them. The frequency
  is at least 1; the recency is not negative when the analysis date is the default;
  the monetary value is not negative when the float sum and the rounding keep the
  sign. Nothing is said of a column of strings with the default date
  (\<open>rfm_metrics_string_dates\<close>).
\<close>

theorem rfm_metrics_per_customer:
  assumes "customer_data \<noteq> []" and "\<forall>t\<in>set customer_data. 0 < transaction_amount t"
    and "dtype = Date_timestamps \<or> analysis_date \<noteq> None"
  shows "\<exists>rows. rfm_metrics ops dtype customer_data analysis_date = Inr rows \<and>
           map customer rows = sort (remdups (map customer_id customer_data)) \<and>
           (\<forall>row\<in>set rows.
              Recency row = days (reference_date customer_data analysis_date
                - Max (transaction_date ` set (purchases customer_data (customer row)))) \<and>
              Frequency row = int (length (purchases customer_data (customer row))) \<and>
              Monetary row =
                fround2 ops
                  (fsum ops (map transaction_amount (purchases customer_data (customer row)))) \<and>
              1 \<le> Frequency row \<and>
              (analysis_date = None \<longrightarrow> 0 \<le> Recency row) \<and>
              (keeps_sign ops \<longrightarrow> 0 \<le> Monetary row))"
proof -
  let ?keys = "groupby_keys customer_id customer_data"
  let ?d = "reference_date customer_data analysis_date"
  let ?amounts = "\<lambda>c. map transaction_amount (purchases customer_data c)"
  let ?mk = "\<lambda>c. \<lparr>customer = c,
               Recency = days (?d - Max (transaction_date ` set (purchases customer_data c))),
               Frequency = int (length (purchases customer_data c)),
               Monetary = fround2 ops (fsum ops (?amounts c))\<rparr>"
  let ?rows = "map ?mk ?keys"
  have eq: "rfm_metrics ops dtype customer_data analysis_date = Inr ?rows"
    unfolding rfm_metrics_nonempty [OF assms(1,3)] aggregate_rows ..
  have ids: "map customer ?rows = sort (remdups (map customer_id customer_data))"
    by (simp add: comp_def groupby_keys_def)
  have ne: "purchases customer_data c \<noteq> []" if "c \<in> set ?keys" for c
    using that by (simp add: purchases_def get_group_nonempty)
  have pos: "\<forall>x\<in>set (?amounts c). 0 < x" for c
    using assms(2) purchases_subset by fastforce
  have rows: "Recency row = days (?d - Max (transaction_date ` set (purchases customer_data (customer row)))) \<and>
      Frequency row = int (length (purchases customer_data (customer row))) \<and>
      Monetary row = fround2 ops (fsum ops (?amounts (customer row))) \<and>
      1 \<le> Frequency row \<and>
      (analysis_date = None \<longrightarrow> 0 \<le> Recency row) \<and>
      (keeps_sign ops \<longrightarrow> 0 \<le> Monetary row)"
    if "row \<in> set ?rows" for row
  proof -
    from that obtain c where c: "c \<in> set ?keys" and row: "row = ?mk c" by auto
    have f: "1 \<le> int (length (purchases customer_data c))"
      using ne [OF c] by (cases "purchases customer_data c") simp_all
    have m: "0 \<le> fround2 ops (fsum ops (?amounts c))" if "keeps_sign ops"
      using that pos [of c] unfolding keeps_sign_def by blast
    have r: "0 \<le> days (?d - Max (transaction_date ` set (purchases customer_data c)))"
      if "analysis_date = None"
    proof (rule days_nonneg)
      from that have "?d = Max (transaction_date ` set customer_data)"
        by (simp add: reference_date_def)
      with latest_le_max [OF ne [OF c]]
      show "0 \<le> ?d - Max (transaction_date ` set (purchases customer_data c))" by simp
    qed
    from f m r show ?thesis by (simp add: row)
  qed
  from eq ids rows show ?thesis by blast
qed

theorem rfm_metrics_per_customer_witness:
  "four_customers \<noteq> [] \<and>
   list_all (\<lambda>t. 0 < transaction_amount t) four_customers \<and>
   keeps_sign exact_ops \<and>
   rfm_metrics exact_ops Date_timestamps four_customers None = Inr four_metrics \<and>
   map customer four_metrics = sort (remdups (map customer_id four_customers)) \<and>
   list_all (\<lambda>row. 1 \<le> Frequency row \<and> 0 \<le> Recency row \<and> 0 \<le> Monetary row \<and>
       Monetary row =
         fround2 exact_ops
           (fsum exact_ops (map transaction_amount (purchases four_customers (customer row)))))
     four_metrics"
proof -
  have ne: "four_customers \<noteq> []" by (simp add: four_customers_def)
  have p: "\<forall>t\<in>set four_customers. 0 < transaction_amount t"
    by (simp add: four_customers_def)
  have d: "Date_timestamps = Date_timestamps \<or> (None :: int option) \<noteq> None" by simp
  from rfm_metrics_per_customer [OF ne p d, of exact_ops]
  obtain rows where
    r: "rfm_metrics exact_ops Date_timestamps four_customers None = Inr rows"
    and i: "map customer rows = sort (remdups (map customer_id four_customers))"
    and a: "\<forall>row\<in>set rows.
      Monetary row =
        fround2 exact_ops
          (fsum exact_ops (map transaction_amount (purchases four_customers (customer row)))) \<and>
      1 \<le> Frequency row \<and> 0 \<le> Recency row \<and> (keeps_sign exact_ops \<longrightarrow> 0 \<le> Monetary row)"
    by blast
  from r rfm_metrics_four_customers have e: "rows = four_metrics" by simp
  from a keeps_sign_exact_ops have "\<forall>row\<in>set rows.
      1 \<le> Frequency row \<and> 0 \<le> Recency row \<and> 0 \<le> Monetary row \<and>
      Monetary row =
        fround2 exact_ops
          (fsum exact_ops (map transaction_amount (purchases four_customers (customer row))))"
    by blast
  with ne p keeps_sign_exact_ops rfm_metrics_four_customers i e show ?thesis
    unfolding list_all_iff by blast
qed

section \<open>The metric calculator on no transaction\<close>

text \<open>
  C6. The specification lets the metric calculator fail with \<^verbatim>\<open>InvalidInputError\<close> on
  an empty transaction set. In the source the aggregation of an empty frame is the
  empty table, and what \<^verbatim>\<open>calculate_rfm\<close> raises afterwards is not
  \<^verbatim>\<open>InvalidInputError\<close>.
\<close>

theorem metric_calculator_empty_counterexample:
  "rfm_metrics exact_ops Date_timestamps [] None = Inr [] \<and>
   calculate_rfm exact_ops Date_timestamps [] None \<noteq> Inl InvalidInputError"
  by code_simp

text \<open>
  C6, as the code has it. On an empty transaction set the metric calculator returns the
  empty table, whatever the analysis date, the type of the date column and the float
  arithmetic; the score binner then raises the
  \<^verbatim>\<open>ValueError\<close> of \<^verbatim>\<open>pd.cut\<close> on an empty column, and \<^verbatim>\<open>calculate_rfm\<close> fails with
  it.
\<close>

theorem calculate_rfm_empty:
  "rfm_metrics ops dtype [] analysis_date = Inr [] \<and> rfm_scores [] = Inl ValueError \<and>
   calculate_rfm ops dtype [] analysis_date = Inl ValueError"
proof -
  have m: "rfm_metrics ops dtype [] analysis_date = Inr []"
    by (cases analysis_date) (simp_all add: rfm_metrics_def aggregate_def groupby_keys_def)
  have s: "rfm_scores [] = Inl ValueError"
    by (simp add: rfm_scores_def cut_scores_def cut_def nbins_to_bins_def)
  from m s show ?thesis by (simp add: calculate_rfm_def)
qed

section \<open>The cluster selector\<close>

text \<open>
  C5. The specification lets the cluster selector fail with \<^verbatim>\<open>InsufficientDataError\<close>
  on fewer than three rows. On two rows the source fails, but not with that exception.
\<close>

theorem cluster_selector_two_customers_counterexample:
  "find_optimal_clusters flat_silhouette 2 10 \<noteq> Inl InsufficientDataError \<and>
   choose_n_clusters None flat_silhouette 2 \<noteq> Inl InsufficientDataError"
  by code_simp

text \<open>
  C5, as the code has it. On fewer than three rows the candidate range is empty, the
  loop scores nothing and \<^verbatim>\<open>np.argmax\<close> raises \<^verbatim>\<open>ValueError\<close> on the empty list of
  scores: the selector fails with \<^verbatim>\<open>ValueError\<close>, whatever \<^verbatim>\<open>max_clusters\<close> is, and so
  does the choice of the cluster count when none is supplied.
\<close>

theorem find_optimal_clusters_small_population:
  "n < 3 \<Longrightarrow>
   find_optimal_clusters sil n max_clusters = Inl ValueError \<and>
   choose_n_clusters None sil n = Inl ValueError"
  by (simp add: choose_n_clusters_def find_optimal_clusters_small)

theorem find_optimal_clusters_small_population_witness:
  "(2::nat) < 3 \<and>
   find_optimal_clusters flat_silhouette 2 10 = Inl ValueError \<and>
   choose_n_clusters None flat_silhouette 2 = Inl ValueError"
proof -
  have s: "(2::nat) < 3" by simp
  from find_optimal_clusters_small_population [OF s, of flat_silhouette 10] s
  show ?thesis by blast
qed

text \<open>
  C8. With no cluster count supplied, a count \<open>k\<close> the selector returns lies in the
  candidate range \<open>{2..min 10 (n - 1)}\<close>, every candidate of the range was scored
  without an exception, and the score of \<open>k\<close> is at least the score of every candidate.
  The selector does return a count when there are at least three rows and scoring
  raises nothing on the range.
\<close>

theorem find_optimal_clusters_maximises_silhouette:
  "(choose_n_clusters None sil n = Inr k \<longrightarrow>
      k \<in> {2..min 10 (n - 1)} \<and>
      (\<forall>j\<in>{2..min 10 (n - 1)}. \<exists>s sk. sil j = Inr s \<and> sil k = Inr sk \<and> s \<le> sk)) \<and>
   (3 \<le> n \<and> (\<forall>j\<in>{2..min 10 (n - 1)}. \<exists>s. sil j = Inr s) \<longrightarrow>
      (\<exists>k'. choose_n_clusters None sil n = Inr k'))"
proof -
  have c: "set [2..<min (10 + 1) n] = {2..min 10 (n - 1)}" by auto
  have ch: "choose_n_clusters None sil n = find_optimal_clusters sil n 10"
    by (simp add: choose_n_clusters_def)
  have a: "k \<in> {2..min 10 (n - 1)} \<and>
      (\<forall>j\<in>{2..min 10 (n - 1)}. \<exists>s sk. sil j = Inr s \<and> sil k = Inr sk \<and> s \<le> sk)"
    if "choose_n_clusters None sil n = Inr k"
    using find_optimal_clusters_Inr [of sil n 10 k] that unfolding ch c by blast
  have b: "\<exists>k'. choose_n_clusters None sil n = Inr k'"
    if "3 \<le> n" and "\<forall>j\<in>{2..min 10 (n - 1)}. \<exists>s. sil j = Inr s"
    using find_optimal_clusters_total [of n 10 sil] that unfolding ch c by simp
  from a b show ?thesis by blast
qed

theorem find_optimal_clusters_maximises_silhouette_witness:
  "choose_n_clusters None peaked_silhouette 5 = Inr 3 \<and>
   (3::nat) \<in> {2..min 10 (5 - 1)} \<and>
   (\<exists>s sk. peaked_silhouette 4 = Inr s \<and> peaked_silhouette 3 = Inr sk \<and> s \<le> sk) \<and>
   (\<exists>s sk. peaked_silhouette 2 = Inr s \<and> peaked_silhouette 3 = Inr sk \<and> s \<le> sk)"
proof -
  have e: "choose_n_clusters None peaked_silhouette 5 = Inr 3" by code_simp
  from find_optimal_clusters_maximises_silhouette [of peaked_silhouette 5 3] e
  have k: "(3::nat) \<in> {2..min 10 (5 - 1)}"
    and m: "\<forall>j\<in>{2..min 10 (5 - 1)}.
      \<exists>s sk. peaked_silhouette j = Inr s \<and> peaked_silhouette 3 = Inr sk \<and> s \<le> sk"
    by blast+
  have "(4::nat) \<in> {2..min 10 (5 - 1)}" "(2::nat) \<in> {2..min 10 (5 - 1)}" by simp_all
  with m have "\<exists>s sk. peaked_silhouette 4 = Inr s \<and> peaked_silhouette 3 = Inr sk \<and> s \<le> sk"
    "\<exists>s sk. peaked_silhouette 2 = Inr s \<and> peaked_silhouette 3 = Inr sk \<and> s \<le> sk"
    by blast+
  with e k show ?thesis by blast
qed

section \<open>The segment aggregator\<close>

text \<open>
  C9. The specification has the per-segment summary sorted by the total monetary value
  of each segment, descending. The source sorts by the column \<^verbatim>\<open>Monetary\<close> of the
  summary, which holds the mean. On the four customers the summary lists
  \<^verbatim>\<open>Loyal Customers\<close>, \<^verbatim>\<open>New Customers\<close>, \<^verbatim>\<open>Hibernating\<close> with means 100, 65, 10; their
  totals 100, 130, 10 are not in descending order. The three means are distinct, so
  the order is that of every sort meeting the contract.
\<close>

theorem segment_summary_order_counterexample:
  "calculate_rfm exact_ops Date_timestamps four_customers None = Inr four_segmented \<and>
   map segment (rfm_segment_summary exact_ops stable_sort_desc four_segmented) =
     [''Loyal Customers'', ''New Customers'', ''Hibernating''] \<and>
   map mean_Monetary (rfm_segment_summary exact_ops stable_sort_desc four_segmented) =
     [100, 65, 10] \<and>
   map (total_monetary four_segmented)
     (map segment (rfm_segment_summary exact_ops stable_sort_desc four_segmented)) =
     [100, 130, 10]"
  by code_simp

text \<open>
  C9, as the code has it. Whatever the float arithmetic, and whatever sort meets the
  contract of \<^verbatim>\<open>sort_values\<close>: the per-segment summary has one row per segment label
  that occurs, the column \<^verbatim>\<open>Monetary\<close> of each row is the float mean of the monetary
  values of the segment's members rounded by \<^verbatim>\<open>.round(2)\<close>, and the rows are in
  descending order of that column.
\<close>

theorem rfm_segment_summary_sorted_by_mean_monetary:
  assumes "sorts_descending sort_values"
  shows "analyze_segments ops sort_values (Some rfm_data) =
           Some (rfm_segment_summary ops sort_values rfm_data) \<and>
         sorted (rev (map mean_Monetary (rfm_segment_summary ops sort_values rfm_data))) \<and>
         set (map segment (rfm_segment_summary ops sort_values rfm_data)) =
           Segment ` set rfm_data \<and>
         distinct (map segment (rfm_segment_summary ops sort_values rfm_data)) \<and>
         map mean_Monetary (rfm_segment_summary ops sort_values rfm_data) =
           map (\<lambda>s. fround2 ops
                      (fmean ops (map Monetary (get_group Segment rfm_data (segment s)))))
             (rfm_segment_summary ops sort_values rfm_data)"
proof -
  let ?keys = "groupby_keys Segment rfm_data"
  let ?S = "rfm_segment_summary ops sort_values rfm_data"
  have a: "analyze_segments ops sort_values (Some rfm_data) = Some ?S"
    by (simp add: analyze_segments_def)
  have b: "sorted (rev (map mean_Monetary ?S))"
    unfolding rfm_segment_summary_def by (rule sorts_descending_sorted [OF assms])
  have segs: "map segment (map (summarise ops rfm_data) ?keys) = ?keys"
    by (simp add: comp_def segment_summarise)
  have st: "set ?S = set (map (summarise ops rfm_data) ?keys)"
    unfolding rfm_segment_summary_def by (rule sorts_descending_set [OF assms])
  have c: "set (map segment ?S) = Segment ` set rfm_data"
  proof -
    have "set (map segment ?S) = segment ` set (map (summarise ops rfm_data) ?keys)"
      by (simp only: set_map st)
    also have "\<dots> = set (map segment (map (summarise ops rfm_data) ?keys))"
      by (simp only: set_map)
    also have "\<dots> = Segment ` set rfm_data"
      by (simp only: segs set_groupby_keys)
    finally show ?thesis .
  qed
  have d: "distinct (map segment ?S)"
    unfolding rfm_segment_summary_def sorts_descending_distinct_map [OF assms]
    by (simp only: segs distinct_groupby_keys)
  have e: "map mean_Monetary ?S =
     map (\<lambda>s. fround2 ops (fmean ops (map Monetary (get_group Segment rfm_data (segment s)))))
       ?S"
  proof (rule map_cong [OF refl])
    fix x assume "x \<in> set ?S"
    then obtain s where "x = summarise ops rfm_data s"
      unfolding st by auto
    then show "mean_Monetary x =
        fround2 ops (fmean ops (map Monetary (get_group Segment rfm_data (segment x))))"
      by (simp add: segment_summarise mean_Monetary_summarise)
  qed
  from a b c d e show ?thesis by blast
qed

theorem rfm_segment_summary_sorted_by_mean_monetary_witness:
  "sorts_descending (stable_sort_desc ::
      (segment_summary \<Rightarrow> rat) \<Rightarrow> segment_summary list \<Rightarrow> segment_summary list) \<and>
   sorted (rev (map mean_Monetary
     (rfm_segment_summary exact_ops stable_sort_desc four_segmented))) \<and>
   distinct (map segment (rfm_segment_summary exact_ops stable_sort_desc four_segmented)) \<and>
   map mean_Monetary (rfm_segment_summary exact_ops stable_sort_desc four_segmented) =
     [100, 65, 10]"
proof -
  have s: "sorts_descending (stable_sort_desc ::
      (segment_summary \<Rightarrow> rat) \<Rightarrow> segment_summary list \<Rightarrow> segment_summary list)"
    by (rule sorts_descending_stable)
  have m: "map mean_Monetary (rfm_segment_summary exact_ops stable_sort_desc four_segmented) =
      [100, 65, 10]"
    by code_simp
  from rfm_segment_summary_sorted_by_mean_monetary [OF s, of exact_ops four_segmented] s m
  show ?thesis by blast
qed

end
